theory Spec2Isabelle
  imports Complex_Main "HOL-Library.List_Lexorder" "HOL-Library.Char_ord" "HOL-Library.Sublist"
begin

section \<open>IssueChrono: the Gantt chart's task model\<close>

text \<open>
  The development follows the chart component \<^verbatim>\<open>GanttChart\<close> (file
  \<^verbatim>\<open>src/unnamed/part_003\<close>: filter engine, facets, layout, hit-testing, scroll state and
  edit handlers) and the backend router (file \<^verbatim>\<open>src/unnamed/part_000\<close>: the
  \<^verbatim>\<open>/issues\<close> endpoint).

  JavaScript numbers are modelled exactly: identifiers and millisecond timestamps as
  \<^typ>\<open>int\<close>, pixel coordinates as \<^typ>\<open>rat\<close>; \<^verbatim>\<open>NaN\<close> is written out as \<open>None\<close>
  where the code can produce it. A value that is \<^verbatim>\<open>null\<close> or \<^verbatim>\<open>undefined\<close> is
  \<open>None\<close>; the code only ever tests such values for truthiness.
\<close>

subsection \<open>Data\<close>

text \<open>An entry of \<^verbatim>\<open>Task.labels\<close>: \<^verbatim>\<open>{ name, color, text_color }\<close>.\<close>

record label =
  label_name :: string
  color :: string
  text_color :: string

text \<open>
  An assignee or author: \<^verbatim>\<open>{ id, name, avatar_url }\<close>. GitLab sends \<^verbatim>\<open>null\<close> for a
  missing avatar, which the code normalises with \<^verbatim>\<open>avatar_url || ''\<close>.
\<close>

record user =
  user_id :: int
  user_name :: string
  avatar_url :: "string option"

text \<open>\<^verbatim>\<open>Task.milestone\<close>: \<^verbatim>\<open>{ id, title, due_date }\<close>.\<close>

record milestone =
  milestone_id :: int
  title :: string
  milestone_due_date :: "string option"

text \<open>
  \<^verbatim>\<open>interface Task\<close>. The field \<^verbatim>\<open>id\<close> is \<open>task_id\<close> and \<^verbatim>\<open>end\<close> is \<open>task_end\<close>
  here (both names are taken in Isabelle).
\<close>

record Task =
  task_id :: int
  name :: string
  description :: string
  start :: string
  task_end :: "string option"
  progress :: rat
  dependencies :: "string list"
  labels :: "label list"
  assignees :: "user list option"
  projectId :: "string option"
  web_url :: string
  author :: user
  created_at :: string
  updated_at :: string
  weight :: "rat option"
  time_estimate :: "rat option"
  total_time_spent :: "rat option"
  due_date :: "string option"
  milestone :: "milestone option"
  state :: string
  iid :: int

text \<open>
  \<^verbatim>\<open>Partial<Task>\<close>: every key may be absent (\<open>None\<close>); a key that is present carries
  the new value of the field.
\<close>

record TaskUpdates =
  upd_task_id :: "int option"
  upd_name :: "string option"
  upd_description :: "string option"
  upd_start :: "string option"
  upd_task_end :: "string option option"
  upd_progress :: "rat option"
  upd_dependencies :: "string list option"
  upd_labels :: "label list option"
  upd_assignees :: "user list option option"
  upd_projectId :: "string option option"
  upd_web_url :: "string option"
  upd_author :: "user option"
  upd_created_at :: "string option"
  upd_updated_at :: "string option"
  upd_weight :: "rat option option"
  upd_time_estimate :: "rat option option"
  upd_total_time_spent :: "rat option option"
  upd_due_date :: "string option option"
  upd_milestone :: "milestone option option"
  upd_state :: "string option"
  upd_iid :: "int option"

text \<open>The filter selections held in component state (and cached in local storage).\<close>

record FilterState =
  selectedLabels :: "string list"
  excludedLabels :: "string list"
  selectedAssignees :: "int list"
  selectedMilestones :: "int list"
  showClosedIssues :: bool

subsection \<open>Array helpers\<close>

text \<open>\<^verbatim>\<open>Array.prototype.includes\<close> and \<^verbatim>\<open>Array.prototype.some\<close>.\<close>

definition array_includes :: "'a list \<Rightarrow> 'a \<Rightarrow> bool" where
  "array_includes xs x = (x \<in> set xs)"

definition array_some :: "'a list \<Rightarrow> ('a \<Rightarrow> bool) \<Rightarrow> bool" where
  "array_some xs p = list_ex p xs"

subsection \<open>Filter engine\<close>

text \<open>
  The callback of \<^verbatim>\<open>tasks.filter(...)\<close> in \<^verbatim>\<open>filteredTasks\<close>, with its two early
  \<^verbatim>\<open>return false\<close> statements. \<^verbatim>\<open>task.assignees?.some(...)\<close> is \<^verbatim>\<open>undefined\<close> (falsy)
  for a task without an assignee array.
\<close>

definition keepTask :: "FilterState \<Rightarrow> Task \<Rightarrow> bool" where
  "keepTask fs task =
    (if \<not> showClosedIssues fs \<and> state task = ''closed'' then False
     else
       let taskLabels = map label_name (labels task) in
       if length (excludedLabels fs) > 0 \<and>
          array_some taskLabels (\<lambda>l. array_includes (excludedLabels fs) l) then False
       else
         let matchesLabels = (length (selectedLabels fs) = 0 \<or>
               array_some taskLabels (\<lambda>l. array_includes (selectedLabels fs) l));
             matchesAssignees = (length (selectedAssignees fs) = 0 \<or>
               (case assignees task of
                  None \<Rightarrow> False
                | Some as \<Rightarrow> array_some as (\<lambda>a. array_includes (selectedAssignees fs) (user_id a))));
             matchesMilestones = (length (selectedMilestones fs) = 0 \<or>
               (case milestone task of
                  None \<Rightarrow> False
                | Some m \<Rightarrow> array_includes (selectedMilestones fs) (milestone_id m)))
         in matchesLabels \<and> matchesAssignees \<and> matchesMilestones)"

definition filteredTasks :: "FilterState \<Rightarrow> Task list \<Rightarrow> Task list" where
  "filteredTasks fs tasks = filter (keepTask fs) tasks"

text \<open>
  The filter rules as the specification words them, (a) to (e), for comparison with
  \<open>keepTask\<close>.
\<close>

definition spec_keep :: "FilterState \<Rightarrow> Task \<Rightarrow> bool" where
  "spec_keep fs t \<longleftrightarrow>
     (state t \<noteq> ''closed'' \<or> showClosedIssues fs) \<and>
     \<not> (\<exists>l \<in> set (labels t). label_name l \<in> set (excludedLabels fs)) \<and>
     (selectedLabels fs = [] \<or>
        (\<exists>l \<in> set (labels t). label_name l \<in> set (selectedLabels fs))) \<and>
     (selectedAssignees fs = [] \<or>
        (\<exists>as a. assignees t = Some as \<and> a \<in> set as \<and>
                user_id a \<in> set (selectedAssignees fs))) \<and>
     (selectedMilestones fs = [] \<or>
        (\<exists>m. milestone t = Some m \<and> milestone_id m \<in> set (selectedMilestones fs)))"

subsection \<open>Local task updates\<close>

text \<open>The object spread \<^verbatim>\<open>{ ...task, ...updates }\<close>: a key of \<open>updates\<close> wins.\<close>

definition spread :: "Task \<Rightarrow> TaskUpdates \<Rightarrow> Task" where
  "spread task u =
    \<lparr> task_id = (case upd_task_id u of None \<Rightarrow> task_id task | Some v \<Rightarrow> v),
      name = (case upd_name u of None \<Rightarrow> name task | Some v \<Rightarrow> v),
      description = (case upd_description u of None \<Rightarrow> description task | Some v \<Rightarrow> v),
      start = (case upd_start u of None \<Rightarrow> start task | Some v \<Rightarrow> v),
      task_end = (case upd_task_end u of None \<Rightarrow> task_end task | Some v \<Rightarrow> v),
      progress = (case upd_progress u of None \<Rightarrow> progress task | Some v \<Rightarrow> v),
      dependencies = (case upd_dependencies u of None \<Rightarrow> dependencies task | Some v \<Rightarrow> v),
      labels = (case upd_labels u of None \<Rightarrow> labels task | Some v \<Rightarrow> v),
      assignees = (case upd_assignees u of None \<Rightarrow> assignees task | Some v \<Rightarrow> v),
      projectId = (case upd_projectId u of None \<Rightarrow> projectId task | Some v \<Rightarrow> v),
      web_url = (case upd_web_url u of None \<Rightarrow> web_url task | Some v \<Rightarrow> v),
      author = (case upd_author u of None \<Rightarrow> author task | Some v \<Rightarrow> v),
      created_at = (case upd_created_at u of None \<Rightarrow> created_at task | Some v \<Rightarrow> v),
      updated_at = (case upd_updated_at u of None \<Rightarrow> updated_at task | Some v \<Rightarrow> v),
      weight = (case upd_weight u of None \<Rightarrow> weight task | Some v \<Rightarrow> v),
      time_estimate = (case upd_time_estimate u of None \<Rightarrow> time_estimate task | Some v \<Rightarrow> v),
      total_time_spent =
        (case upd_total_time_spent u of None \<Rightarrow> total_time_spent task | Some v \<Rightarrow> v),
      due_date = (case upd_due_date u of None \<Rightarrow> due_date task | Some v \<Rightarrow> v),
      milestone = (case upd_milestone u of None \<Rightarrow> milestone task | Some v \<Rightarrow> v),
      state = (case upd_state u of None \<Rightarrow> state task | Some v \<Rightarrow> v),
      iid = (case upd_iid u of None \<Rightarrow> iid task | Some v \<Rightarrow> v) \<rparr>"

text \<open>
  \<^verbatim>\<open>updateTask\<close>: the updater passed to \<^verbatim>\<open>setTasks\<close>, applied to the previous task
  list.
\<close>

definition updateTask :: "int \<Rightarrow> TaskUpdates \<Rightarrow> Task list \<Rightarrow> Task list" where
  "updateTask taskId updates prevTasks =
     map (\<lambda>task. if task_id task = taskId then spread task updates else task) prevTasks"

text \<open>The empty update object \<^verbatim>\<open>{}\<close>.\<close>

definition noUpdates :: TaskUpdates where
  "noUpdates =
    \<lparr> upd_task_id = None, upd_name = None, upd_description = None, upd_start = None,
      upd_task_end = None, upd_progress = None, upd_dependencies = None, upd_labels = None,
      upd_assignees = None, upd_projectId = None, upd_web_url = None, upd_author = None,
      upd_created_at = None, upd_updated_at = None, upd_weight = None,
      upd_time_estimate = None, upd_total_time_spent = None, upd_due_date = None,
      upd_milestone = None, upd_state = None, upd_iid = None \<rparr>"

subsection \<open>Sample data\<close>

definition sampleUser :: user where
  "sampleUser = \<lparr> user_id = 7, user_name = ''Ann'', avatar_url = None \<rparr>"

text \<open>
  The first task of the specification's scenario: id 1, from 2024-01-05 to 2024-01-20,
  no labels, opened.
\<close>

definition task1 :: Task where
  "task1 =
    \<lparr> task_id = 1, name = ''Old title'', description = '''', start = ''2024-01-05'',
      task_end = Some ''2024-01-20'', progress = 0, dependencies = [], labels = [],
      assignees = Some [], projectId = Some ''42'', web_url = '''', author = sampleUser,
      created_at = ''2024-01-05'', updated_at = ''2024-01-05'', weight = None,
      time_estimate = None, total_time_spent = None, due_date = Some ''2024-01-20'',
      milestone = None, state = ''opened'', iid = 11 \<rparr>"

text \<open>The second task of the scenario: id 2, from 2024-02-01, open-ended, closed.\<close>

definition task2 :: Task where
  "task2 = task1 \<lparr> task_id := 2, start := ''2024-02-01'', task_end := None,
      created_at := ''2024-02-01'', due_date := None, state := ''closed'', iid := 12 \<rparr>"

definition bugLabel :: label where
  "bugLabel = \<lparr> label_name = ''bug'', color = ''#ff0000'', text_color = ''#ffffff'' \<rparr>"

definition wontfixLabel :: label where
  "wontfixLabel = \<lparr> label_name = ''wontfix'', color = ''#cccccc'', text_color = ''#000000'' \<rparr>"

text \<open>A task labelled both \<^verbatim>\<open>bug\<close> and \<^verbatim>\<open>wontfix\<close>.\<close>

definition task3 :: Task where
  "task3 = task1 \<lparr> task_id := 3, labels := [bugLabel, wontfixLabel], iid := 13 \<rparr>"

definition noFilter :: FilterState where
  "noFilter = \<lparr> selectedLabels = [], excludedLabels = [], selectedAssignees = [],
      selectedMilestones = [], showClosedIssues = False \<rparr>"

subsection \<open>Chart constants\<close>

definition dayWidth :: rat where "dayWidth = 7"
definition taskHeight :: rat where "taskHeight = 45"
definition headerHeight :: rat where "headerHeight = 80"
definition avatarColumnWidth :: rat where "avatarColumnWidth = 40"
definition infoColumnWidth :: rat where "infoColumnWidth = 400"

text \<open>Milliseconds per day, the constant \<^verbatim>\<open>1000 * 60 * 60 * 24\<close>.\<close>

definition msPerDay :: int where "msPerDay = 1000 * 60 * 60 * 24"

subsection \<open>Truthiness\<close>

text \<open>
  A string that may be \<^verbatim>\<open>null\<close> or \<^verbatim>\<open>undefined\<close> is truthy when it is present and
  not empty.
\<close>

definition truthy :: "string option \<Rightarrow> bool" where
  "truthy v = (case v of None \<Rightarrow> False | Some s \<Rightarrow> s \<noteq> [])"

subsection \<open>Hit-testing a canvas click\<close>



subsection \<open>Task bar geometry\<close>





text \<open>
  A date parser for the samples: it knows the date-only strings of the scenario, which
  \<^verbatim>\<open>new Date\<close> reads as midnight UTC, and rejects everything else.
\<close>

definition sampleParse :: "string \<Rightarrow> int option" where
  "sampleParse s =
     (if s = ''2024-01-05'' then Some 1704412800000
      else if s = ''2024-01-20'' then Some 1705708800000
      else if s = ''2024-02-01'' then Some 1706745600000
      else if s = ''2024-03-20'' then Some 1710892800000
      else None)"

subsection \<open>Assignee facet\<close>











subsection \<open>Edit handlers\<close>

text \<open>The two local-storage entries the edit handlers read.\<close>

record storage =
  gitlabUrl :: "string option"
  token :: "string option"

text \<open>How the promise of \<^verbatim>\<open>axios.put\<close> settles; its value is not used.\<close>

datatype putOutcome = Fulfilled | Rejected

text \<open>
  The request \<^verbatim>\<open>PUT /gitlab/issues/:projectId/:iid\<close>: its body and its query
  parameters.
\<close>

record putRequest =
  req_projectId :: string
  req_iid :: int
  req_body :: "(string \<times> string) list"
  req_gitlabUrl :: string
  req_token :: string

text \<open>
  An \<^verbatim>\<open>async\<close> handler with at most one \<^verbatim>\<open>await\<close>. It either returns without
  awaiting, or it suspends at the \<^verbatim>\<open>await\<close> of a request and resumes when the request
  settles. Each part carries the functional updaters it passes to \<^verbatim>\<open>setTasks\<close>, in
  order: those before the \<^verbatim>\<open>await\<close>, and those after it (a rejection resumes in the
  \<^verbatim>\<open>catch\<close> block).
\<close>

type_synonym updater = "Task list \<Rightarrow> Task list"

datatype asyncRun =
    Returned "updater list"
  | Awaiting "updater list" putRequest "putOutcome \<Rightarrow> updater list"

definition applyAll :: "updater list \<Rightarrow> Task list \<Rightarrow> Task list" where
  "applyAll us ts = fold (\<lambda>u s. u s) us ts"

text \<open>
  The task list while the handler is suspended (or once it has returned without
  awaiting), and the task list once the request has settled.
\<close>

definition whilePending :: "asyncRun \<Rightarrow> Task list \<Rightarrow> Task list" where
  "whilePending r ts = (case r of Returned us \<Rightarrow> applyAll us ts | Awaiting us _ _ \<Rightarrow> applyAll us ts)"

definition afterSettled :: "asyncRun \<Rightarrow> putOutcome \<Rightarrow> Task list \<Rightarrow> Task list" where
  "afterSettled r out ts =
     (case r of
        Returned us \<Rightarrow> applyAll us ts
      | Awaiting us _ k \<Rightarrow> applyAll (k out) (applyAll us ts))"

definition issued :: "asyncRun \<Rightarrow> putRequest option" where
  "issued r = (case r of Returned _ \<Rightarrow> None | Awaiting _ req _ \<Rightarrow> Some req)"

text \<open>
  \<^verbatim>\<open>handleTitleChange\<close>. \<open>tasks\<close> is the task list of the render the handler was
  created in; both guards log an error and return. The only \<^verbatim>\<open>setTasks\<close> call is
  \<^verbatim>\<open>updateTask(taskId, { name: newTitle })\<close>, after the \<^verbatim>\<open>await\<close>.
\<close>

definition handleTitleChange :: "storage \<Rightarrow> Task list \<Rightarrow> int \<Rightarrow> string \<Rightarrow> asyncRun" where
  "handleTitleChange ls tasks taskId newTitle =
    (case find (\<lambda>t. task_id t = taskId) tasks of
       None \<Rightarrow> Returned []
     | Some task \<Rightarrow>
         if \<not> truthy (projectId task) then Returned []
         else if \<not> truthy (gitlabUrl ls) \<or> \<not> truthy (token ls) then Returned []
         else
           Awaiting []
             \<lparr> req_projectId = the (projectId task), req_iid = iid task,
               req_body = [(''title'', newTitle)],
               req_gitlabUrl = ''https://'' @ the (gitlabUrl ls),
               req_token = the (token ls) \<rparr>
             (\<lambda>out. case out of
                Fulfilled \<Rightarrow> [updateTask taskId (noUpdates\<lparr>upd_name := Some newTitle\<rparr>)]
              | Rejected \<Rightarrow> []))"

definition sampleStorage :: storage where
  "sampleStorage = \<lparr> gitlabUrl = Some ''gitlab.example.com'', token = Some ''secret'' \<rparr>"

subsection \<open>Backend: the issues endpoint\<close>

text \<open>
  The query of \<^verbatim>\<open>GET /issues\<close>. (\<^verbatim>\<open>period\<close> only selects the \<^verbatim>\<open>created_after\<close>
  parameter handed to the fetch, which is part of the fetch function below.)
\<close>

record query =
  q_projectId :: "string option"
  q_token :: "string option"
  q_gitlabUrl :: "string option"

text \<open>
  What a failed fetch throws: an axios error with the response status (if there was a
  response), the error code and the message; some other \<^verbatim>\<open>Error\<close> with its message; or
  a value that is not an \<^verbatim>\<open>Error\<close>.
\<close>

datatype fetchError =
    AxiosError "nat option" "string option" string
  | PlainError string
  | Thrown

text \<open>
  The response: \<^verbatim>\<open>res.json(tasks)\<close>, or \<^verbatim>\<open>res.status(n).json({ error })\<close>.
\<close>

datatype 't response = Json "'t list" | ErrorResponse nat string

text \<open>
  \<^verbatim>\<open>String.prototype.split\<close> on a one-character separator.
\<close>

fun split_on :: "char \<Rightarrow> string \<Rightarrow> string list" where
  "split_on c [] = [[]]"
| "split_on c (x # xs) =
     (if x = c then [] # split_on c xs
      else (case split_on c xs of
              w # ws \<Rightarrow> (x # w) # ws
            | [] \<Rightarrow> [[x]]))"

text \<open>
  \<^verbatim>\<open>Promise.all\<close> over promises that all run at once. Each promise is given by the
  time at which it settles and by how it settles (\<open>Inl\<close>: rejected). The result is
  fulfilled with all values, in the order of the input, when no promise rejects, and
  rejected with the reason of the promise that rejects first otherwise (of two
  rejections at the same time, the one earlier in the input).
\<close>

definition rejections :: "(nat \<times> ('e + 'a)) list \<Rightarrow> (nat \<times> 'e) list" where
  "rejections ps = concat (map (\<lambda>(t, r). case r of Inl e \<Rightarrow> [(t, e)] | Inr _ \<Rightarrow> []) ps)"

definition fulfilments :: "(nat \<times> ('e + 'a)) list \<Rightarrow> 'a list" where
  "fulfilments ps = concat (map (\<lambda>(t, r). case r of Inl _ \<Rightarrow> [] | Inr v \<Rightarrow> [v]) ps)"

definition promise_all :: "(nat \<times> ('e + 'a)) list \<Rightarrow> 'e + 'a list" where
  "promise_all ps =
     (case rejections ps of
        [] \<Rightarrow> Inr (fulfilments ps)
      | r # rs \<Rightarrow> Inl (snd (fold (\<lambda>p first. if fst p < fst first then p else first) rs r)))"

text \<open>
  The \<^verbatim>\<open>catch\<close> block of the endpoint. \<^verbatim>\<open>response?.status || 500\<close> is 500 for a
  missing or zero status.
\<close>

definition errorMessage :: "fetchError \<Rightarrow> string option" where
  "errorMessage error =
     (case error of
        AxiosError status code message \<Rightarrow> Some message
      | PlainError message \<Rightarrow> Some message
      | Thrown \<Rightarrow> None)"

definition catchIssuesError :: "fetchError \<Rightarrow> 't response" where
  "catchIssuesError error =
     (if errorMessage error = Some ''Invalid GitLab URL''
      then ErrorResponse 400 ''Invalid GitLab URL format''
      else
        case error of
          AxiosError status code message \<Rightarrow>
            if status = Some 401 then ErrorResponse 401 ''Invalid GitLab token''
            else if code = Some ''ECONNREFUSED''
              then ErrorResponse 503 ''Unable to connect to GitLab server''
            else ErrorResponse
                   (case status of None \<Rightarrow> 500 | Some s \<Rightarrow> if s = 0 then 500 else s)
                   (''Failed to fetch issues from GitLab: '' @ message)
        | _ \<Rightarrow> ErrorResponse 500 ''Failed to fetch issues from GitLab'')"

text \<open>
  \<^verbatim>\<open>router.get('/issues')\<close>. \<open>normalizeGitLabUrl\<close> is \<open>None\<close> when the URL parser
  throws, which the function turns into \<^verbatim>\<open>new Error('Invalid GitLab URL')\<close>.
  \<open>getProjectIssues\<close> stands for the paginated fetch of one project: when it settles
  and with what. \<open>toTask\<close> is the projection of a GitLab issue to the task object sent
  to the client, applied to each issue of a fetched project.
\<close>

definition issuesEndpoint ::
  "(string \<Rightarrow> string option) \<Rightarrow> (string \<Rightarrow> string \<Rightarrow> string \<Rightarrow> nat \<times> (fetchError + 'i list)) \<Rightarrow>
   (string \<Rightarrow> 'i \<Rightarrow> 't) \<Rightarrow> query \<Rightarrow> 't response" where
  "issuesEndpoint normalizeGitLabUrl getProjectIssues toTask q =
    (if \<not> truthy (q_projectId q) \<or> \<not> truthy (q_token q) \<or> \<not> truthy (q_gitlabUrl q)
     then ErrorResponse 400 ''Project ID, token, and GitLab URL are required''
     else
       case normalizeGitLabUrl (the (q_gitlabUrl q)) of
         None \<Rightarrow> catchIssuesError (PlainError ''Invalid GitLab URL'')
       | Some baseUrl \<Rightarrow>
           let projectIds = split_on CHR '','' (the (q_projectId q));
               allIssues = promise_all
                 (map (\<lambda>pid. case getProjectIssues baseUrl pid (the (q_token q)) of
                               (t, Inl e) \<Rightarrow> (t, Inl e)
                             | (t, Inr issues) \<Rightarrow> (t, Inr (map (toTask pid) issues)))
                      projectIds)
           in case allIssues of
                Inr results \<Rightarrow> Json (concat results)
              | Inl error \<Rightarrow> catchIssuesError error)"

text \<open>
  Samples: two projects; the fetch of project 2 fails with status 404 in
  \<open>sampleFetch\<close> and succeeds in \<open>sampleFetchOk\<close>.
\<close>

definition sampleNormalize :: "string \<Rightarrow> string option" where
  "sampleNormalize u = Some (u @ '':443'')"

definition sampleQuery :: query where
  "sampleQuery = \<lparr> q_projectId = Some ''1,2'', q_token = Some ''secret'',
                    q_gitlabUrl = Some ''https://gitlab.example.com'' \<rparr>"

definition sampleFetch :: "string \<Rightarrow> string \<Rightarrow> string \<Rightarrow> nat \<times> (fetchError + nat list)" where
  "sampleFetch baseUrl pid tok =
     (if pid = ''1'' then (5, Inr [10, 11])
      else (3, Inl (AxiosError (Some 404) None ''Request failed with status code 404'')))"

definition sampleFetchOk :: "string \<Rightarrow> string \<Rightarrow> string \<Rightarrow> nat \<times> (fetchError + nat list)" where
  "sampleFetchOk baseUrl pid tok = (if pid = ''1'' then (5, Inr [10, 11]) else (3, Inr [20]))"

subsection \<open>The date library\<close>

text \<open>
  Dates are time values: milliseconds since the epoch, as \<^verbatim>\<open>Date.prototype.getTime\<close>
  returns them. The calendar functions follow the ECMAScript specification of \<^verbatim>\<open>Date\<close>
  (\<open>Day\<close>, \<open>TimeWithinDay\<close>, \<open>DaysInYear\<close>, \<open>DayFromYear\<close>, \<open>YearFromTime\<close>,
  \<open>InLeapYear\<close>, \<open>DayWithinYear\<close>, \<open>MonthFromTime\<close>, \<open>DateFromTime\<close>, \<open>MakeDay\<close>,
  \<open>MakeDate\<close>). The local time zone is taken to be UTC, so \<open>LocalTime\<close> and \<open>UTC\<close> are
  the identity, and time values stay within the range of \<^verbatim>\<open>TimeClip\<close>.
\<close>

definition Day :: "int \<Rightarrow> int" where
  "Day t = t div msPerDay"

definition TimeWithinDay :: "int \<Rightarrow> int" where
  "TimeWithinDay t = t mod msPerDay"

definition DaysInYear :: "int \<Rightarrow> int" where
  "DaysInYear y =
     (if y mod 4 \<noteq> 0 then 365
      else if y mod 100 \<noteq> 0 then 366
      else if y mod 400 \<noteq> 0 then 365
      else 366)"

definition DayFromYear :: "int \<Rightarrow> int" where
  "DayFromYear y =
     365 * (y - 1970) + (y - 1969) div 4 - (y - 1901) div 100 + (y - 1601) div 400"

text \<open>
  The number of days before a year grows by the length of the year; the search for
  the year of a day below terminates because of it.
\<close>

lemma div_step:
  fixes a n :: int
  assumes "0 < n"
  shows "(a + 1) div n = a div n + (if (a + 1) mod n = 0 then 1 else 0)"
proof (cases "(a + 1) mod n = 0")
  case True
  have "n * ((a + 1) div n) + (a + 1) mod n = a + 1" by (rule mult_div_mod_eq)
  with True have e: "a = n * ((a + 1) div n - 1) + (n - 1)" by (simp add: algebra_simps)
  have "a div n = (a + 1) div n - 1"
    by (rule int_div_pos_eq [OF e]) (use assms in simp_all)
  with True show ?thesis by simp
next
  case False
  have r: "0 \<le> (a + 1) mod n" "(a + 1) mod n < n" using assms by simp_all
  have "n * ((a + 1) div n) + (a + 1) mod n = a + 1" by (rule mult_div_mod_eq)
  then have e: "a = n * ((a + 1) div n) + ((a + 1) mod n - 1)" by linarith
  have "a div n = (a + 1) div n"
    by (rule int_div_pos_eq [OF e]) (use r False in simp_all)
  with False show ?thesis by simp
qed

lemma mod_shift:
  fixes y n c :: int
  assumes "n dvd c"
  shows "((y - c) mod n = 0) = (y mod n = 0)"
  using assms by (simp add: mod_eq_0_iff_dvd dvd_diff_left_iff)

lemma mod_coarser:
  fixes y n m :: int
  assumes "y mod n = 0" and "m dvd n"
  shows "y mod m = 0"
  using assms by (meson dvd_trans mod_eq_0_iff_dvd)

lemma DayFromYear_step: "DayFromYear (y + 1) = DayFromYear y + DaysInYear y"
proof -
  have s4: "(y - 1969 + 1) div 4 = (y - 1969) div 4 + (if y mod 4 = 0 then 1 else 0)"
    using div_step [of 4 "y - 1969"] mod_shift [of 4 1968 y] by simp
  have s100: "(y - 1901 + 1) div 100 = (y - 1901) div 100 + (if y mod 100 = 0 then 1 else 0)"
    using div_step [of 100 "y - 1901"] mod_shift [of 100 1900 y] by simp
  have s400: "(y - 1601 + 1) div 400 = (y - 1601) div 400 + (if y mod 400 = 0 then 1 else 0)"
    using div_step [of 400 "y - 1601"] mod_shift [of 400 1600 y] by simp
  have c1: "y mod 100 = 0 \<Longrightarrow> y mod 4 = 0" by (rule mod_coarser [of y 100 4]) simp_all
  have c2: "y mod 400 = 0 \<Longrightarrow> y mod 100 = 0" by (rule mod_coarser [of y 400 100]) simp_all
  have "DayFromYear (y + 1) =
          365 * (y - 1970) + 365 + (y - 1969 + 1) div 4 - (y - 1901 + 1) div 100
            + (y - 1601 + 1) div 400"
    by (simp add: DayFromYear_def algebra_simps)
  also have "\<dots> = DayFromYear y + DaysInYear y"
    unfolding s4 s100 s400 using c1 c2 by (auto simp: DayFromYear_def DaysInYear_def)
  finally show ?thesis .
qed

lemma DaysInYear_pos: "365 \<le> DaysInYear y"
  by (simp add: DaysInYear_def)

lemma DayFromYear_less: "DayFromYear y < DayFromYear (y + 1)"
  using DayFromYear_step [of y] DaysInYear_pos [of y] by simp



text \<open>
  \<open>YearFromTime\<close> is the largest year whose first day is not after the day of the time
  value. \<open>yearSearch\<close> looks for it upwards from a year that is early enough
  (\<open>yearFloor\<close>).
\<close>

function yearSearch :: "int \<Rightarrow> int \<Rightarrow> int" where
  "yearSearch d y = (if DayFromYear (y + 1) \<le> d then yearSearch d (y + 1) else y)"
  by pat_completeness auto
termination
proof (relation "measure (\<lambda>(d, y). nat (d + 1 - DayFromYear (y + 1)))")
  show "wf (measure (\<lambda>(d, y). nat (d + 1 - DayFromYear (y + 1))))" by simp
next
  fix d y :: int
  assume "DayFromYear (y + 1) \<le> d"
  with DayFromYear_less [of "y + 1"]
  show "((d, y + 1), (d, y)) \<in> measure (\<lambda>(d, y). nat (d + 1 - DayFromYear (y + 1)))"
    by simp
qed

declare yearSearch.simps [simp del]

definition yearFloor :: "int \<Rightarrow> int" where
  "yearFloor d = (if d < 0 then 1969 + d div 365 else 1969 + d div 366)"

definition YearFromDay :: "int \<Rightarrow> int" where
  "YearFromDay d = yearSearch d (yearFloor d)"

definition YearFromTime :: "int \<Rightarrow> int" where
  "YearFromTime t = YearFromDay (Day t)"

definition InLeapYear :: "int \<Rightarrow> int" where
  "InLeapYear t = (if DaysInYear (YearFromTime t) = 366 then 1 else 0)"

definition DayWithinYear :: "int \<Rightarrow> int" where
  "DayWithinYear t = Day t - DayFromYear (YearFromTime t)"

text \<open>
  The day within the year on which month \<open>m\<close> (0 to 11) starts, and the month a day
  within the year falls in: the tables of \<open>MonthFromTime\<close> and \<open>DateFromTime\<close>.
\<close>

definition monthStart :: "int \<Rightarrow> int \<Rightarrow> int" where
  "monthStart leap m =
     (if m = 0 then 0 else if m = 1 then 31 else if m = 2 then 59 + leap
      else if m = 3 then 90 + leap else if m = 4 then 120 + leap
      else if m = 5 then 151 + leap else if m = 6 then 181 + leap
      else if m = 7 then 212 + leap else if m = 8 then 243 + leap
      else if m = 9 then 273 + leap else if m = 10 then 304 + leap
      else 334 + leap)"

definition monthOf :: "int \<Rightarrow> int \<Rightarrow> int" where
  "monthOf leap d =
     (if d < 31 then 0 else if d < 59 + leap then 1 else if d < 90 + leap then 2
      else if d < 120 + leap then 3 else if d < 151 + leap then 4
      else if d < 181 + leap then 5 else if d < 212 + leap then 6
      else if d < 243 + leap then 7 else if d < 273 + leap then 8
      else if d < 304 + leap then 9 else if d < 334 + leap then 10
      else 11)"

definition MonthFromTime :: "int \<Rightarrow> int" where
  "MonthFromTime t = monthOf (InLeapYear t) (DayWithinYear t)"

definition DateFromTime :: "int \<Rightarrow> int" where
  "DateFromTime t = DayWithinYear t - monthStart (InLeapYear t) (MonthFromTime t) + 1"

text \<open>
  \<open>MakeDay\<close> for a finite year, month and date; \<open>MakeDate\<close>.
\<close>

definition MakeDay :: "int \<Rightarrow> int \<Rightarrow> int \<Rightarrow> int" where
  "MakeDay year month date =
     (let ym = year + month div 12; mn = month mod 12
      in DayFromYear ym + monthStart (if DaysInYear ym = 366 then 1 else 0) mn + date - 1)"

definition MakeDate :: "int \<Rightarrow> int \<Rightarrow> int" where
  "MakeDate day time = day * msPerDay + time"

text \<open>
  \<^verbatim>\<open>Date.prototype.getDate\<close> and \<^verbatim>\<open>Date.prototype.setDate\<close> (the new time value).
\<close>

definition getDate :: "int \<Rightarrow> int" where
  "getDate t = DateFromTime t"

definition setDate :: "int \<Rightarrow> int \<Rightarrow> int" where
  "setDate t date = MakeDate (MakeDay (YearFromTime t) (MonthFromTime t) date) (TimeWithinDay t)"

subsection \<open>Chart layout\<close>

text \<open>
  The dates a task contributes to the date range in \<^verbatim>\<open>drawChart\<close>:
  \<^verbatim>\<open>[new Date(task.start), task.end ? new Date(task.end) : new Date()]\<close>, where \<open>now\<close> is
  the current time. \<open>chartDates\<close> collects them over the filtered tasks and drops the
  invalid ones.
\<close>

definition taskDates :: "(string \<Rightarrow> int option) \<Rightarrow> int \<Rightarrow> Task \<Rightarrow> int option list" where
  "taskDates parse now task =
     [parse (start task),
      if truthy (task_end task) then parse (the (task_end task)) else Some now]"

definition chartDates :: "(string \<Rightarrow> int option) \<Rightarrow> int \<Rightarrow> Task list \<Rightarrow> int list" where
  "chartDates parse now filtered =
     concat (map (\<lambda>date. case date of None \<Rightarrow> [] | Some t \<Rightarrow> [t])
                 (concat (map (taskDates parse now) filtered)))"

text \<open>
  What \<^verbatim>\<open>drawChart\<close> computes before it paints: the canvas size, the date range, the
  number of days and the two scroll maxima it hands to \<^verbatim>\<open>setMaxScroll\<close> and
  \<^verbatim>\<open>setMaxVerticalScroll\<close>.
\<close>

record layout =
  canvasWidth :: rat
  canvasHeight :: rat
  minDate :: int
  maxDate :: int
  totalDays :: int
  newMaxScroll :: rat
  newMaxVerticalScroll :: rat

text \<open>
  The three ways \<^verbatim>\<open>drawChart\<close> ends on a mounted canvas: the placeholder for an
  empty task list, the silent return when no date is valid, and a full draw.
\<close>

datatype drawn = NoTasks | NoDates | Layout layout


text \<open>
  The layout part of \<^verbatim>\<open>drawChart\<close>. \<open>rect\<close> is the container's bounding rectangle
  (width, height). \<^verbatim>\<open>Math.min(...xs)\<close> and \<^verbatim>\<open>Math.max(...xs)\<close> of a non-empty list are
  folds of \<open>min\<close> and \<open>max\<close>.
\<close>

definition chartLayout ::
  "(string \<Rightarrow> int option) \<Rightarrow> int \<Rightarrow> rat \<times> rat \<Rightarrow> Task list \<Rightarrow> drawn" where
  "chartLayout parse now rect filtered =
    (let cw = max (fst rect) 800;
         ch = max (snd rect) 600
     in if length filtered = 0 then NoTasks
        else
          case chartDates parse now filtered of
            [] \<Rightarrow> NoDates
          | d # ds \<Rightarrow>
              let earliest = fold min ds d;
                  latest = fold max ds d;
                  minD = setDate earliest 1;
                  maxD = setDate latest (getDate latest + 14);
                  days = \<lceil>(of_int (maxD - minD) :: rat) / of_int (1000 * 60 * 60 * 24)\<rceil>;
                  totalContentHeight = headerHeight + of_nat (length filtered) * taskHeight;
                  visibleContentHeight = ch - headerHeight
              in Layout
                   \<lparr> canvasWidth = cw, canvasHeight = ch, minDate = minD, maxDate = maxD,
                     totalDays = days,
                     newMaxScroll =
                       max 0 (of_int days * dayWidth - (cw - avatarColumnWidth - infoColumnWidth)),
                     newMaxVerticalScroll = max 0 (totalContentHeight - visibleContentHeight) \<rparr>)"

text \<open>
  The current time of the samples: 2025-11-02, midnight UTC.
\<close>

definition sampleNow :: int where "sampleNow = 1762041600000"

subsection \<open>Scroll state\<close>










text \<open>
  Samples: a task from 2024-01-05 to 2024-03-20; the state after the chart was drawn
  800 pixels wide and scrolled to the right end; and that state after the window was
  widened to 1200 pixels.
\<close>

definition taskLong :: Task where
  "taskLong = task1 \<lparr> task_end := Some ''2024-03-20'', due_date := Some ''2024-03-20'' \<rparr>"



section \<open>Filter engine: properties\<close>

lemma array_includes_iff: "array_includes xs x \<longleftrightarrow> x \<in> set xs"
  by (simp add: array_includes_def)

lemma array_some_iff: "array_some xs p \<longleftrightarrow> (\<exists>x \<in> set xs. p x)"
  by (simp add: array_some_def list_ex_iff)

lemma keepTask_spec: "keepTask fs t = spec_keep fs t"
  by (cases "assignees t"; cases "milestone t")
     (auto simp: keepTask_def spec_keep_def Let_def array_includes_iff array_some_iff)

text \<open>
  C3. A task is kept by the filter exactly when rules (a) to (e) all hold; the filter
  is the order-preserving selection of the tasks that satisfy them. In particular a
  task that carries an excluded label is dropped, whatever \<open>selectedLabels\<close> says.
\<close>

theorem filteredTasks_rules:
  "filteredTasks fs tasks = filter (spec_keep fs) tasks \<and>
   (\<forall>t. t \<in> set (filteredTasks fs tasks) \<longleftrightarrow> t \<in> set tasks \<and> spec_keep fs t) \<and>
   (\<forall>t. (\<exists>l \<in> set (labels t). label_name l \<in> set (excludedLabels fs)) \<longrightarrow>
        t \<notin> set (filteredTasks fs tasks))"
proof -
  have eq: "filteredTasks fs tasks = filter (spec_keep fs) tasks"
    unfolding filteredTasks_def by (rule filter_cong) (simp_all add: keepTask_spec)
  have mem: "\<forall>t. t \<in> set (filteredTasks fs tasks) \<longleftrightarrow> t \<in> set tasks \<and> spec_keep fs t"
    by (simp add: eq)
  have excl: "\<forall>t. (\<exists>l \<in> set (labels t). label_name l \<in> set (excludedLabels fs)) \<longrightarrow>
        t \<notin> set (filteredTasks fs tasks)"
    by (auto simp: eq spec_keep_def)
  from eq mem excl show ?thesis by blast
qed

text \<open>
  The scenario of the specification: \<open>excludedLabels = [wontfix]\<close>, a task labelled
  \<open>bug\<close> and \<open>wontfix\<close>, and \<open>selectedLabels = [bug]\<close>: the task is excluded.
\<close>

theorem filteredTasks_rules_witness:
  "(\<exists>l \<in> set (labels task3).
      label_name l \<in> set (excludedLabels (noFilter\<lparr>selectedLabels := [''bug''],
                                                   excludedLabels := [''wontfix'']\<rparr>))) \<and>
   (\<exists>l \<in> set (labels task3).
      label_name l \<in> set (selectedLabels (noFilter\<lparr>selectedLabels := [''bug''],
                                                   excludedLabels := [''wontfix'']\<rparr>))) \<and>
   task3 \<notin> set (filteredTasks (noFilter\<lparr>selectedLabels := [''bug''],
                                          excludedLabels := [''wontfix'']\<rparr>) [task3, task1]) \<and>
   task1 \<notin> set (filteredTasks (noFilter\<lparr>selectedLabels := [''bug''],
                                          excludedLabels := [''wontfix'']\<rparr>) [task3, task1]) \<and>
   filteredTasks (noFilter\<lparr>excludedLabels := [''wontfix'']\<rparr>) [task3, task1] = [task1]"
  using filteredTasks_rules
          [of "noFilter\<lparr>selectedLabels := [''bug''], excludedLabels := [''wontfix'']\<rparr>"
              "[task3, task1]"]
        filteredTasks_rules [of "noFilter\<lparr>excludedLabels := [''wontfix'']\<rparr>" "[task3, task1]"]
  by (simp add: spec_keep_def noFilter_def task3_def task1_def bugLabel_def wontfixLabel_def)

text \<open>
  C4. The filter is idempotent: filtering its own output under the same filter state
  changes nothing.
\<close>

theorem filteredTasks_idempotent:
  "filteredTasks fs (filteredTasks fs tasks) = filteredTasks fs tasks"
  by (simp add: filteredTasks_def)

theorem filteredTasks_idempotent_witness:
  "filteredTasks noFilter [task1, task2] = [task1] \<and>
   filteredTasks noFilter (filteredTasks noFilter [task1, task2]) = [task1]"
proof -
  have one: "filteredTasks noFilter [task1, task2] = [task1]"
    by (simp add: filteredTasks_def keepTask_def noFilter_def task1_def task2_def
                  array_includes_def array_some_def)
  from one filteredTasks_idempotent [of noFilter "[task1, task2]"] show ?thesis by simp
qed

section \<open>Local task updates: frame\<close>

text \<open>
  C10. \<open>updateTask\<close> keeps the length of the task list and works position by
  position: a task whose id differs from \<open>taskId\<close> is unchanged, a task with that id
  is replaced, in place, by its spread with the updates. No task is removed or moved.
\<close>

theorem updateTask_frame:
  "length (updateTask taskId updates tasks) = length tasks \<and>
   (\<forall>i < length tasks.
      (task_id (tasks ! i) \<noteq> taskId \<longrightarrow> updateTask taskId updates tasks ! i = tasks ! i) \<and>
      (task_id (tasks ! i) = taskId \<longrightarrow>
         updateTask taskId updates tasks ! i = spread (tasks ! i) updates)) \<and>
   (\<forall>t \<in> set tasks. task_id t \<noteq> taskId \<longrightarrow> t \<in> set (updateTask taskId updates tasks))"
  by (auto simp: updateTask_def)

theorem updateTask_frame_witness:
  "length (updateTask 1 (noUpdates\<lparr>upd_name := Some ''New title''\<rparr>) [task1, task2]) = 2 \<and>
   updateTask 1 (noUpdates\<lparr>upd_name := Some ''New title''\<rparr>) [task1, task2] ! 1 = task2 \<and>
   updateTask 1 (noUpdates\<lparr>upd_name := Some ''New title''\<rparr>) [task1, task2] ! 0
     = task1\<lparr>name := ''New title''\<rparr>"
proof -
  have ids: "task_id ([task1, task2] ! 0) = 1" "task_id ([task1, task2] ! 1) \<noteq> 1"
    by (simp_all add: task1_def task2_def)
  have sp: "spread task1 (noUpdates\<lparr>upd_name := Some ''New title''\<rparr>)
              = task1\<lparr>name := ''New title''\<rparr>"
    by (simp add: spread_def noUpdates_def task1_def)
  from updateTask_frame [of 1 "noUpdates\<lparr>upd_name := Some ''New title''\<rparr>" "[task1, task2]"]
       ids sp
  show ?thesis by simp
qed

section \<open>Hit-testing\<close>




section \<open>Task bar geometry\<close>



section \<open>Assignee facet\<close>














section \<open>Edit handlers\<close>

text \<open>
  C1, as the claim states it, fails: with the request for the new title of task 1
  issued, the task list still shows the old title while the request is pending, and
  it still shows the old title after the request was rejected.
\<close>

theorem handleTitleChange_counterexample:
  "issued (handleTitleChange sampleStorage [task1, task2] 1 ''New title'') =
     Some \<lparr> req_projectId = ''42'', req_iid = 11, req_body = [(''title'', ''New title'')],
            req_gitlabUrl = ''https://gitlab.example.com'', req_token = ''secret'' \<rparr> \<and>
   map name (whilePending (handleTitleChange sampleStorage [task1, task2] 1 ''New title'')
               [task1, task2]) = [''Old title'', ''Old title''] \<and>
   map name (afterSettled (handleTitleChange sampleStorage [task1, task2] 1 ''New title'')
               Rejected [task1, task2]) = [''Old title'', ''Old title'']"
  by (simp add: handleTitleChange_def sampleStorage_def task1_def task2_def truthy_def
        issued_def whilePending_def afterSettled_def applyAll_def)

text \<open>
  C1, amended. A title edit is applied to the task list only after the remote update
  has succeeded: while the request is pending the list is unchanged, after a
  rejection it is unchanged, and after success it is \<open>updateTask\<close> with the new
  name. The request is issued exactly when the task is found with a project id and
  both storage entries are set; otherwise nothing changes.
\<close>

theorem handleTitleChange_after_remote:
  "whilePending (handleTitleChange ls tasks taskId newTitle) ts = ts \<and>
   afterSettled (handleTitleChange ls tasks taskId newTitle) Rejected ts = ts \<and>
   (issued (handleTitleChange ls tasks taskId newTitle) = None \<longrightarrow>
      afterSettled (handleTitleChange ls tasks taskId newTitle) Fulfilled ts = ts) \<and>
   (issued (handleTitleChange ls tasks taskId newTitle) \<noteq> None \<longrightarrow>
      afterSettled (handleTitleChange ls tasks taskId newTitle) Fulfilled ts
        = updateTask taskId (noUpdates\<lparr>upd_name := Some newTitle\<rparr>) ts) \<and>
   (issued (handleTitleChange ls tasks taskId newTitle) \<noteq> None \<longleftrightarrow>
      (\<exists>task. find (\<lambda>t. task_id t = taskId) tasks = Some task \<and> truthy (projectId task)) \<and>
      truthy (gitlabUrl ls) \<and> truthy (token ls))"
  by (auto simp: handleTitleChange_def issued_def whilePending_def afterSettled_def applyAll_def
      split: option.splits)

theorem handleTitleChange_after_remote_witness:
  "issued (handleTitleChange sampleStorage [task1, task2] 1 ''New title'') \<noteq> None \<and>
   map name (afterSettled (handleTitleChange sampleStorage [task1, task2] 1 ''New title'')
               Fulfilled [task1, task2]) = [''New title'', ''Old title''] \<and>
   issued (handleTitleChange sampleStorage [task1, task2] 5 ''New title'') = None \<and>
   afterSettled (handleTitleChange sampleStorage [task1, task2] 5 ''New title'')
               Fulfilled [task1, task2] = [task1, task2]"
proof -
  have i: "issued (handleTitleChange sampleStorage [task1, task2] 1 ''New title'') \<noteq> None"
    by (simp add: handleTitleChange_def sampleStorage_def task1_def task2_def truthy_def issued_def)
  have j: "issued (handleTitleChange sampleStorage [task1, task2] 5 ''New title'') = None"
    by (simp add: handleTitleChange_def sampleStorage_def task1_def task2_def truthy_def issued_def)
  have u: "map name (updateTask 1 (noUpdates\<lparr>upd_name := Some ''New title''\<rparr>) [task1, task2])
            = [''New title'', ''Old title'']"
    by (simp add: updateTask_def spread_def noUpdates_def task1_def task2_def)
  from handleTitleChange_after_remote [of sampleStorage "[task1, task2]" 1 "''New title''" "[task1, task2]"]
       handleTitleChange_after_remote [of sampleStorage "[task1, task2]" 5 "''New title''" "[task1, task2]"]
       i j u
  show ?thesis by simp
qed

section \<open>Backend: the issues endpoint\<close>

text \<open>
  C2, as the claim states it, fails: project 1 is fetched, project 2 fails with 404,
  and the endpoint answers 404 instead of the tasks of project 1.
\<close>

theorem issuesEndpoint_counterexample:
  "sampleFetch ''https://gitlab.example.com:443'' ''1'' ''secret'' = (5, Inr [10, 11]) \<and>
   issuesEndpoint sampleNormalize sampleFetch (\<lambda>pid i. (pid, i)) sampleQuery
     = ErrorResponse 404 ''Failed to fetch issues from GitLab: Request failed with status code 404'' \<and>
   issuesEndpoint sampleNormalize sampleFetch (\<lambda>pid i. (pid, i)) sampleQuery
     \<noteq> Json [(''1'', 10), (''1'', 11)]"
  by (simp add: issuesEndpoint_def sampleQuery_def sampleFetch_def truthy_def promise_all_def
        rejections_def fulfilments_def catchIssuesError_def errorMessage_def
        sampleNormalize_def Let_def)

lemma catch_is_error: "\<exists>status msg. catchIssuesError e = ErrorResponse status msg"
  by (cases e) (auto simp: catchIssuesError_def)

lemma promise_all_rejects:
  "(t, Inl e) \<in> set ps \<Longrightarrow> \<exists>e'. promise_all ps = Inl e'"
proof -
  assume "(t, Inl e) \<in> set ps"
  then have "(t, e) \<in> set (rejections ps)" by (force simp: rejections_def)
  then show ?thesis by (cases "rejections ps") (auto simp: promise_all_def)
qed

lemma rejections_Nil:
  "\<forall>p \<in> set ps. \<exists>v. snd p = Inr v \<Longrightarrow> rejections ps = []"
  by (induction ps) (auto simp: rejections_def)

lemma fulfilments_all:
  "\<forall>p \<in> set ps. \<exists>v. snd p = Inr v \<Longrightarrow> fulfilments ps = map (\<lambda>p. projr (snd p)) ps"
  by (induction ps) (auto simp: fulfilments_def)

lemma promise_all_fulfils:
  "\<forall>p \<in> set ps. \<exists>v. snd p = Inr v \<Longrightarrow> promise_all ps = Inr (map (\<lambda>p. projr (snd p)) ps)"
  by (simp add: promise_all_def rejections_Nil fulfilments_all)

text \<open>
  C2, amended. With a well-formed request, the endpoint is all or nothing: if the
  fetch of any one project fails, the response is an error response and carries no
  task list; if every fetch succeeds, the response is the list of all projects' tasks,
  in the order of the project ids.
\<close>

theorem issuesEndpoint_all_or_nothing:
  fixes getProjectIssues :: "string \<Rightarrow> string \<Rightarrow> string \<Rightarrow> nat \<times> (fetchError + 'i list)"
    and toTask :: "string \<Rightarrow> 'i \<Rightarrow> 't"
    and q :: query and baseUrl :: string
  assumes guards: "truthy (q_projectId q)" "truthy (q_token q)" "truthy (q_gitlabUrl q)"
      and url: "normalizeGitLabUrl (the (q_gitlabUrl q)) = Some baseUrl"
  defines "projectIds \<equiv> split_on CHR '','' (the (q_projectId q))"
  defines "fetch \<equiv> \<lambda>pid. getProjectIssues baseUrl pid (the (q_token q))"
  shows "((\<exists>pid \<in> set projectIds. \<exists>t e. fetch pid = (t, Inl e)) \<longrightarrow>
            (\<exists>status msg. issuesEndpoint normalizeGitLabUrl getProjectIssues toTask q
                              = ErrorResponse status msg)) \<and>
         ((\<forall>pid \<in> set projectIds. \<exists>t issues. fetch pid = (t, Inr issues)) \<longrightarrow>
            issuesEndpoint normalizeGitLabUrl getProjectIssues toTask q
              = Json (concat (map (\<lambda>pid. map (toTask pid) (projr (snd (fetch pid)))) projectIds)))"
proof -
  let ?ps = "map (\<lambda>pid. case fetch pid of
                               (t, Inl e) \<Rightarrow> (t, Inl e)
                             | (t, Inr issues) \<Rightarrow> (t, Inr (map (toTask pid) issues))) projectIds"
  have ep: "issuesEndpoint normalizeGitLabUrl getProjectIssues toTask q =
        (case promise_all ?ps of Inr results \<Rightarrow> Json (concat results) | Inl error \<Rightarrow> catchIssuesError error)"
    using guards url by (simp add: issuesEndpoint_def projectIds_def fetch_def Let_def)
  have fail: "\<exists>status msg. issuesEndpoint normalizeGitLabUrl getProjectIssues toTask q
                              = ErrorResponse status msg"
    if "pid \<in> set projectIds" "fetch pid = (t, Inl e)" for pid t e
  proof -
    from that have "(t, Inl e) \<in> set ?ps" by force
    from promise_all_rejects [OF this] obtain e' where "promise_all ?ps = Inl e'" ..
    with catch_is_error [of e'] show ?thesis by (simp add: ep)
  qed
  have ok: "issuesEndpoint normalizeGitLabUrl getProjectIssues toTask q
              = Json (concat (map (\<lambda>pid. map (toTask pid) (projr (snd (fetch pid)))) projectIds))"
    if all: "\<forall>pid \<in> set projectIds. \<exists>t issues. fetch pid = (t, Inr issues)"
  proof -
    have "\<forall>p \<in> set ?ps. \<exists>v. snd p = Inr v" using all by fastforce
    from promise_all_fulfils [OF this]
    have "promise_all ?ps = Inr (map (\<lambda>p. projr (snd p)) ?ps)" .
    moreover have "map (\<lambda>p. projr (snd p)) ?ps
                     = map (\<lambda>pid. map (toTask pid) (projr (snd (fetch pid)))) projectIds"
      using all by (fastforce simp: comp_def)
    ultimately have "promise_all ?ps
                     = Inr (map (\<lambda>pid. map (toTask pid) (projr (snd (fetch pid)))) projectIds)"
      by (simp only:)
    then show ?thesis by (simp only: ep sum.case)
  qed
  from fail ok show ?thesis by blast
qed


theorem issuesEndpoint_all_or_nothing_witness:
  "issuesEndpoint sampleNormalize sampleFetchOk (\<lambda>pid i. (pid, i)) sampleQuery
     = Json [(''1'', 10), (''1'', 11), (''2'', 20)] \<and>
   (\<exists>status msg. issuesEndpoint sampleNormalize sampleFetch (\<lambda>pid i. (pid, i)) sampleQuery
     = ErrorResponse status msg)"
proof -
  have g: "truthy (q_projectId sampleQuery)" "truthy (q_token sampleQuery)"
          "truthy (q_gitlabUrl sampleQuery)"
    by (simp_all add: sampleQuery_def truthy_def)
  have u: "sampleNormalize (the (q_gitlabUrl sampleQuery)) = Some ''https://gitlab.example.com:443''"
    by (simp add: sampleNormalize_def sampleQuery_def)
  have ids: "split_on CHR '','' (the (q_projectId sampleQuery)) = [''1'', ''2'']"
    by (simp add: sampleQuery_def)
  note ok = issuesEndpoint_all_or_nothing
      [where getProjectIssues = sampleFetchOk and toTask = "\<lambda>pid i. (pid, i)"
         and q = sampleQuery and normalizeGitLabUrl = sampleNormalize
         and baseUrl = "''https://gitlab.example.com:443''", OF g u, unfolded ids]
  note bad = issuesEndpoint_all_or_nothing
      [where getProjectIssues = sampleFetch and toTask = "\<lambda>pid i. (pid, i)"
         and q = sampleQuery and normalizeGitLabUrl = sampleNormalize
         and baseUrl = "''https://gitlab.example.com:443''", OF g u, unfolded ids]
  have 1: "issuesEndpoint sampleNormalize sampleFetchOk (\<lambda>pid i. (pid, i)) sampleQuery
     = Json [(''1'', 10), (''1'', 11), (''2'', 20)]"
    using ok by (simp add: sampleFetchOk_def)
  have 2: "\<exists>status msg. issuesEndpoint sampleNormalize sampleFetch (\<lambda>pid i. (pid, i)) sampleQuery
     = ErrorResponse status msg"
    using bad by (simp add: sampleFetch_def)
  from 1 2 show ?thesis by blast
qed

section \<open>The date library: properties\<close>











lemma monthOf_range: "0 \<le> monthOf leap d \<and> monthOf leap d \<le> 11"
  by (simp add: monthOf_def)





lemma MonthFromTime_range: "0 \<le> MonthFromTime t" "MonthFromTime t \<le> 11"
  using monthOf_range by (simp_all add: MonthFromTime_def)



lemma Day_TimeWithinDay: "Day t * msPerDay + TimeWithinDay t = t"
  by (simp add: Day_def TimeWithinDay_def)

lemma MakeDay_current:
  "MakeDay (YearFromTime t) (MonthFromTime t) date = Day t + (date - DateFromTime t)"
proof -
  have "MonthFromTime t div 12 = 0" "MonthFromTime t mod 12 = MonthFromTime t"
    using MonthFromTime_range [of t] by simp_all
  then show ?thesis
    by (simp add: MakeDay_def DateFromTime_def DayWithinYear_def InLeapYear_def)
qed

lemma setDate_shift: "setDate t date = t + (date - getDate t) * msPerDay"
proof -
  have "setDate t date = (Day t + (date - DateFromTime t)) * msPerDay + TimeWithinDay t"
    by (simp add: setDate_def MakeDate_def MakeDay_current)
  also have "\<dots> = (Day t * msPerDay + TimeWithinDay t) + (date - DateFromTime t) * msPerDay"
    by (simp add: algebra_simps)
  finally show ?thesis by (simp add: Day_TimeWithinDay getDate_def)
qed



lemma setDate_plus: "setDate t (getDate t + k) = t + k * msPerDay"
  by (simp add: setDate_shift)

section \<open>Chart layout: the date range\<close>






lemma sample_setDate:
  "setDate 1704412800000 1 = 1704067200000"
  "YearFromTime 1704067200000 = 2024" "MonthFromTime 1704067200000 = 0"
  "getDate 1704067200000 = 1" "getDate 1704412800000 = 5"
  by code_simp+





section \<open>Scroll state\<close>


lemma chartLayout_maxima:
  "chartLayout parse now rect filtered = Layout l \<Longrightarrow>
     0 \<le> newMaxScroll l \<and> 0 \<le> newMaxVerticalScroll l"
  by (auto simp: chartLayout_def Let_def split: if_splits list.splits)





lemma long_dates:
  "chartDates sampleParse sampleNow [taskLong] = [1704412800000, 1710892800000]"
  by (simp add: chartDates_def taskDates_def taskLong_def task1_def sampleParse_def truthy_def)






section \<open>Further properties of the layout and the filter\<close>

text \<open>
  X1. Whatever the viewport and the tasks, the scroll maxima that a draw computes are
  not negative; a viewport larger than the content gives 0.
\<close>

theorem scroll_maxima_nonneg:
  "\<forall>l. chartLayout parse now rect filtered = Layout l \<longrightarrow>
        0 \<le> newMaxScroll l \<and> 0 \<le> newMaxVerticalScroll l"
  using chartLayout_maxima by blast

theorem scroll_maxima_nonneg_witness:
  "chartLayout sampleParse sampleNow (5000, 3000) [taskLong] =
     Layout \<lparr> canvasWidth = 5000, canvasHeight = 3000,
              minDate = 1704067200000, maxDate = 1712102400000, totalDays = 93,
              newMaxScroll = 0, newMaxVerticalScroll = 0 \<rparr> \<and>
   0 \<le> newMaxScroll \<lparr> canvasWidth = 5000, canvasHeight = 3000,
              minDate = 1704067200000, maxDate = 1712102400000, totalDays = 93,
              newMaxScroll = 0, newMaxVerticalScroll = 0 \<rparr>"
proof -
  have l: "chartLayout sampleParse sampleNow (5000, 3000) [taskLong] =
     Layout \<lparr> canvasWidth = 5000, canvasHeight = 3000,
              minDate = 1704067200000, maxDate = 1712102400000, totalDays = 93,
              newMaxScroll = 0, newMaxVerticalScroll = 0 \<rparr>"
    by (simp add: chartLayout_def Let_def long_dates sample_setDate setDate_plus msPerDay_def
        headerHeight_def taskHeight_def dayWidth_def avatarColumnWidth_def
        infoColumnWidth_def)
  from scroll_maxima_nonneg [of sampleParse sampleNow "(5000, 3000)" "[taskLong]"] l
  show ?thesis by blast
qed

text \<open>
  X2. The filter preserves order: its result is a subsequence of the task list.
\<close>

theorem filteredTasks_order_preserving:
  "subseq (filteredTasks fs tasks) tasks"
  by (simp add: filteredTasks_def)

theorem filteredTasks_order_preserving_witness:
  "subseq (filteredTasks noFilter [task1, task2, task3]) [task1, task2, task3] \<and>
   filteredTasks noFilter [task1, task2, task3] = [task1, task3]"
proof -
  have "filteredTasks noFilter [task1, task2, task3] = [task1, task3]"
    by (simp add: filteredTasks_def keepTask_def noFilter_def task1_def task2_def task3_def
                  array_includes_def array_some_def)
  with filteredTasks_order_preserving [of noFilter "[task1, task2, task3]"]
  show ?thesis by simp
qed

end
